theory Spec2Isabelle
  imports Main "HOL-Library.Word"
begin

section \<open>Data model of the contract DaoDebateGuardFHE\<close>

text \<open>
  The contract of \<^verbatim>\<open>contracts/DAO_Debate_Guard.sol\<close> as a shallow embedding. Solidity
  value types keep their width: \<^verbatim>\<open>uint256\<close> and \<^verbatim>\<open>bytes32\<close> are 256-bit words, an
  \<^verbatim>\<open>address\<close> is a 160-bit word, \<^verbatim>\<open>bytes\<close> is a list of octets. The FHE library declares
  \<^verbatim>\<open>euint32\<close> as a user-defined value type over \<^verbatim>\<open>bytes32\<close>: an opaque ciphertext handle
  whose storage default is zero.
\<close>

type_synonym address = "160 word"
type_synonym uint256 = "256 word"
type_synonym bytes32 = "256 word"
type_synonym euint32 = "256 word"
type_synonym bytes = "8 word list"

text \<open>
  The custom errors the contract declares, in the order of their declaration. The
  function \<^verbatim>\<open>requestBatchDecryption\<close> reverts with \<^verbatim>\<open>BatchNotClosed()\<close>, which the
  contract uses without declaring; it is an error of its own here. The last two are the
  reverts of the language: the overflow panic of checked arithmetic (Solidity 0.8) and
  the revert of a slice or of \<^verbatim>\<open>abi.decode\<close> that reads past the end of its data.
\<close>

datatype error =
    NotOwner
  | NotProvider
  | Paused
  | CooldownActive
  | BatchNotOpen
  | BatchClosed
  | InvalidBatchId
  | ReplayDetected
  | StateMismatch
  | InvalidProof
  | NotInitialized
  | InvalidParameter
  | BatchNotClosed
  | ArithmeticPanic
  | SliceOutOfBounds

text \<open>
  The events. \<^verbatim>\<open>Paused\<close> and \<^verbatim>\<open>BatchClosed\<close> name both an error and an event in the
  source; the events carry the suffix \<open>Event\<close> here.
\<close>

datatype event =
    OwnershipTransferred address address
  | ProviderAdded address
  | ProviderRemoved address
  | PausedEvent address
  | Unpaused address
  | CooldownSecondsChanged uint256 uint256
  | BatchOpened uint256
  | BatchClosedEvent uint256
  | Submission uint256 address
  | DecryptionRequested uint256 uint256
  | DecryptionCompleted uint256 uint256 uint256 uint256 uint256 uint256

record DecryptionContext =
  batchId :: uint256
  stateHash :: bytes32
  processed :: bool

text \<open>
  The storage of the contract, one field for each state variable. A Solidity mapping is
  total: a key never written reads as the default value. The last field is the flag
  behind \<^verbatim>\<open>FHE.isInitialized()\<close>, which \<^verbatim>\<open>FHE.initialize()\<close> sets.
\<close>

record contract_state =
  owner :: address
  providers :: "address \<Rightarrow> bool"
  paused :: bool
  cooldownSeconds :: uint256
  lastSubmissionTime :: "address \<Rightarrow> uint256"
  lastDecryptionRequestTime :: "address \<Rightarrow> uint256"
  currentBatchId :: uint256
  batchOpen :: bool
  decryptionContexts :: "uint256 \<Rightarrow> DecryptionContext"
  encryptedSentimentScores :: "uint256 \<Rightarrow> euint32"
  encryptedKeywordCounts :: "uint256 \<Rightarrow> euint32"
  encryptedPollOption1Counts :: "uint256 \<Rightarrow> euint32"
  encryptedPollOption2Counts :: "uint256 \<Rightarrow> euint32"
  accSentimentScore :: euint32
  accKeywordCount :: euint32
  accPollOption1Count :: euint32
  accPollOption2Count :: euint32
  submissionsInCurrentBatch :: uint256
  fheInitialized :: bool

text \<open>
  What the contract takes from outside its own source: its address and the primitives of
  the imported FHE library (\<^verbatim>\<open>@fhevm/solidity/lib/FHE.sol\<close>), which are parameters of
  every operation. \<open>keccak256_abi_encode env cts a\<close> stands for
  \<^verbatim>\<open>keccak256(abi.encode(cts, a))\<close>.
\<close>

record environment =
  this :: address
  asEuint32 :: "uint256 \<Rightarrow> euint32"
  fheAdd :: "euint32 \<Rightarrow> euint32 \<Rightarrow> euint32"
  toBytes32 :: "euint32 \<Rightarrow> bytes32"
  keccak256_abi_encode :: "bytes32 list \<Rightarrow> address \<Rightarrow> bytes32"
  checkSignatures :: "uint256 \<Rightarrow> bytes \<Rightarrow> bytes \<Rightarrow> bool"

text \<open>
  A call either reverts with an error, and then the storage is as before the call, or
  returns the new storage with the events it emitted, in order.
\<close>

type_synonym result = "error + (contract_state \<times> event list)"

definition state_after :: "contract_state \<Rightarrow> result \<Rightarrow> contract_state" where
  "state_after s r = (case r of Inl e \<Rightarrow> s | Inr (s', evs) \<Rightarrow> s')"

definition events_of :: "result \<Rightarrow> event list" where
  "events_of r = (case r of Inl e \<Rightarrow> [] | Inr (s', evs) \<Rightarrow> evs)"

section \<open>Language primitives\<close>

text \<open>Checked addition of Solidity 0.8: a sum that does not fit 256 bits panics.\<close>

definition checked_add :: "uint256 \<Rightarrow> uint256 \<Rightarrow> error + uint256" where
  "checked_add a b = (if unat a + unat b < 2 ^ 256 then Inr (a + b) else Inl ArithmeticPanic)"

text \<open>The slice \<^verbatim>\<open>bs[i:j]\<close> reverts unless \<open>i \<le> j \<le> length bs\<close>.\<close>

definition slice :: "bytes \<Rightarrow> nat \<Rightarrow> nat \<Rightarrow> error + bytes" where
  "slice bs i j =
     (if i \<le> j \<and> j \<le> length bs then Inr (take (j - i) (drop i bs)) else Inl SliceOutOfBounds)"

text \<open>\<^verbatim>\<open>abi.decode(bs, (uint256))\<close>: the first 32 octets, big-endian; shorter data reverts.\<close>

definition be_uint256 :: "bytes \<Rightarrow> uint256" where
  "be_uint256 bs = foldl (\<lambda>acc b. acc * 256 + ucast b) 0 bs"

definition abi_decode_uint256 :: "bytes \<Rightarrow> error + uint256" where
  "abi_decode_uint256 bs =
     (if length bs < 32 then Inl SliceOutOfBounds else Inr (be_uint256 (take 32 bs)))"

definition decode_slice :: "bytes \<Rightarrow> nat \<Rightarrow> nat \<Rightarrow> error + uint256" where
  "decode_slice bs i j = (case slice bs i j of Inl e \<Rightarrow> Inl e | Inr part \<Rightarrow> abi_decode_uint256 part)"

section \<open>Modifiers\<close>

definition onlyOwner :: "address \<Rightarrow> contract_state \<Rightarrow> result \<Rightarrow> result" where
  "onlyOwner sender s body = (if sender \<noteq> owner s then Inl NotOwner else body)"

definition onlyProvider :: "address \<Rightarrow> contract_state \<Rightarrow> result \<Rightarrow> result" where
  "onlyProvider sender s body = (if \<not> providers s sender then Inl NotProvider else body)"

definition whenNotPaused :: "contract_state \<Rightarrow> result \<Rightarrow> result" where
  "whenNotPaused s body = (if paused s then Inl Paused else body)"

section \<open>Construction and administration\<close>

text \<open>The storage before the constructor runs: every variable at its default.\<close>

definition zero_state :: contract_state where
  "zero_state =
     \<lparr> owner = 0, providers = (\<lambda>a. False), paused = False, cooldownSeconds = 0,
       lastSubmissionTime = (\<lambda>a. 0), lastDecryptionRequestTime = (\<lambda>a. 0),
       currentBatchId = 0, batchOpen = False,
       decryptionContexts = (\<lambda>r. \<lparr> batchId = 0, stateHash = 0, processed = False \<rparr>),
       encryptedSentimentScores = (\<lambda>i. 0), encryptedKeywordCounts = (\<lambda>i. 0),
       encryptedPollOption1Counts = (\<lambda>i. 0), encryptedPollOption2Counts = (\<lambda>i. 0),
       accSentimentScore = 0, accKeywordCount = 0, accPollOption1Count = 0,
       accPollOption2Count = 0, submissionsInCurrentBatch = 0, fheInitialized = False \<rparr>"

definition initIfNeeded :: "contract_state \<Rightarrow> contract_state" where
  "initIfNeeded s = (if \<not> fheInitialized s then s\<lparr>fheInitialized := True\<rparr> else s)"

definition requireInitialized :: "contract_state \<Rightarrow> result \<Rightarrow> result" where
  "requireInitialized s body = (if \<not> fheInitialized s then Inl NotInitialized else body)"

definition constructor :: "address \<Rightarrow> contract_state \<times> event list" where
  "constructor sender =
     (let s1 = zero_state\<lparr>owner := sender\<rparr>;
          s2 = s1\<lparr>providers := (providers s1)(owner s1 := True)\<rparr>;
          s3 = s2\<lparr>cooldownSeconds := 60\<rparr>
      in (initIfNeeded s3, [ProviderAdded (owner s1)]))"

definition transferOwnership :: "address \<Rightarrow> address \<Rightarrow> contract_state \<Rightarrow> result" where
  "transferOwnership sender newOwner s =
     onlyOwner sender s
       (let oldOwner = owner s
        in Inr (s\<lparr>owner := newOwner\<rparr>, [OwnershipTransferred oldOwner newOwner]))"

definition addProvider :: "address \<Rightarrow> address \<Rightarrow> contract_state \<Rightarrow> result" where
  "addProvider sender provider s =
     onlyOwner sender s
       (Inr (s\<lparr>providers := (providers s)(provider := True)\<rparr>, [ProviderAdded provider]))"

definition removeProvider :: "address \<Rightarrow> address \<Rightarrow> contract_state \<Rightarrow> result" where
  "removeProvider sender provider s =
     onlyOwner sender s
       (Inr (s\<lparr>providers := (providers s)(provider := False)\<rparr>, [ProviderRemoved provider]))"

definition setPaused :: "address \<Rightarrow> bool \<Rightarrow> contract_state \<Rightarrow> result" where
  "setPaused sender p s =
     onlyOwner sender s
       (Inr (s\<lparr>paused := p\<rparr>, if p then [PausedEvent sender] else [Unpaused sender]))"

definition setCooldownSeconds :: "address \<Rightarrow> uint256 \<Rightarrow> contract_state \<Rightarrow> result" where
  "setCooldownSeconds sender c s =
     onlyOwner sender s
       (if c = 0 then Inl InvalidParameter
        else let oldCooldown = cooldownSeconds s
             in Inr (s\<lparr>cooldownSeconds := c\<rparr>, [CooldownSecondsChanged oldCooldown c]))"

section \<open>Batch lifecycle and submission\<close>

definition openBatch :: "environment \<Rightarrow> address \<Rightarrow> contract_state \<Rightarrow> result" where
  "openBatch env sender s =
     onlyOwner sender s (whenNotPaused s
       (if batchOpen s then Inl InvalidBatchId
        else case checked_add (currentBatchId s) 1 of
               Inl e \<Rightarrow> Inl e
             | Inr b \<Rightarrow>
                 Inr (s\<lparr>currentBatchId := b, batchOpen := True, submissionsInCurrentBatch := 0,
                        accSentimentScore := asEuint32 env 0, accKeywordCount := asEuint32 env 0,
                        accPollOption1Count := asEuint32 env 0,
                        accPollOption2Count := asEuint32 env 0\<rparr>,
                      [BatchOpened b])))"

definition closeBatch :: "address \<Rightarrow> contract_state \<Rightarrow> result" where
  "closeBatch sender s =
     onlyOwner sender s (whenNotPaused s
       (if \<not> batchOpen s then Inl BatchNotOpen
        else Inr (s\<lparr>batchOpen := False\<rparr>, [BatchClosedEvent (currentBatchId s)])))"

text \<open>\<open>now\<close> is \<^verbatim>\<open>block.timestamp\<close>, \<open>sender\<close> is \<^verbatim>\<open>msg.sender\<close>.\<close>

definition submitEncryptedData ::
  "environment \<Rightarrow> address \<Rightarrow> uint256 \<Rightarrow> euint32 \<Rightarrow> euint32 \<Rightarrow> euint32 \<Rightarrow> euint32 \<Rightarrow>
   contract_state \<Rightarrow> result" where
  "submitEncryptedData env sender now sentimentScore keywordCount pollOption1 pollOption2 s =
     onlyProvider sender s (whenNotPaused s
       (if \<not> batchOpen s then Inl BatchNotOpen
        else case checked_add (lastSubmissionTime s sender) (cooldownSeconds s) of
               Inl e \<Rightarrow> Inl e
             | Inr ready \<Rightarrow>
                 if now < ready then Inl CooldownActive
                 else let s1 = s\<lparr>lastSubmissionTime := (lastSubmissionTime s)(sender := now)\<rparr>
                      in requireInitialized s1
                           (let s2 = s1\<lparr>accSentimentScore :=
                                          fheAdd env (accSentimentScore s1) sentimentScore,
                                        accKeywordCount :=
                                          fheAdd env (accKeywordCount s1) keywordCount,
                                        accPollOption1Count :=
                                          fheAdd env (accPollOption1Count s1) pollOption1,
                                        accPollOption2Count :=
                                          fheAdd env (accPollOption2Count s1) pollOption2\<rparr>
                            in case checked_add (submissionsInCurrentBatch s2) 1 of
                                 Inl e \<Rightarrow> Inl e
                               | Inr n \<Rightarrow>
                                   Inr (s2\<lparr>submissionsInCurrentBatch := n\<rparr>,
                                        [Submission (currentBatchId s2) sender]))))"

section \<open>Decryption request and callback\<close>

text \<open>
  The four accumulator handles in the order both functions put them into \<^verbatim>\<open>ctsArray\<close>,
  passed through \<^verbatim>\<open>FHE.toBytes32\<close> by the loop, and the digest of them with the
  contract's address.
\<close>

definition ctsArray :: "contract_state \<Rightarrow> euint32 list" where
  "ctsArray s =
     [accSentimentScore s, accKeywordCount s, accPollOption1Count s, accPollOption2Count s]"

definition computeStateHash :: "environment \<Rightarrow> contract_state \<Rightarrow> bytes32" where
  "computeStateHash env s =
     (let cts = map (toBytes32 env) (ctsArray s)
      in keccak256_abi_encode env cts (this env))"

text \<open>
  \<open>requestId\<close> is the value the external call
  \<^verbatim>\<open>FHE.requestDecryption(cts, this.myCallback.selector)\<close> returns.
\<close>

definition requestBatchDecryption ::
  "environment \<Rightarrow> address \<Rightarrow> uint256 \<Rightarrow> uint256 \<Rightarrow> contract_state \<Rightarrow> result" where
  "requestBatchDecryption env sender now requestId s =
     onlyOwner sender s (whenNotPaused s
       (if batchOpen s then Inl BatchNotClosed
        else if submissionsInCurrentBatch s = 0 then Inl InvalidBatchId
        else case checked_add (lastDecryptionRequestTime s sender) (cooldownSeconds s) of
               Inl e \<Rightarrow> Inl e
             | Inr ready \<Rightarrow>
                 if now < ready then Inl CooldownActive
                 else let s1 = s\<lparr>lastDecryptionRequestTime :=
                                   (lastDecryptionRequestTime s)(sender := now)\<rparr>;
                          stateHash = computeStateHash env s1
                      in Inr (s1\<lparr>decryptionContexts := (decryptionContexts s1)
                                  (requestId := \<lparr> batchId = currentBatchId s1,
                                                  stateHash = stateHash,
                                                  processed = False \<rparr>)\<rparr>,
                              [DecryptionRequested requestId (currentBatchId s1)])))"

definition myCallback ::
  "environment \<Rightarrow> address \<Rightarrow> uint256 \<Rightarrow> bytes \<Rightarrow> bytes \<Rightarrow> contract_state \<Rightarrow> result" where
  "myCallback env sender requestId cleartexts prf s =
     (if processed (decryptionContexts s requestId) then Inl ReplayDetected
      else let currentHash = computeStateHash env s
           in if currentHash \<noteq> stateHash (decryptionContexts s requestId) then Inl StateMismatch
              else if \<not> checkSignatures env requestId cleartexts prf then Inl InvalidProof
              else case decode_slice cleartexts 0 32 of
                     Inl e \<Rightarrow> Inl e
                   | Inr sentimentScore \<Rightarrow>
                 (case decode_slice cleartexts 32 64 of
                     Inl e \<Rightarrow> Inl e
                   | Inr keywordCount \<Rightarrow>
                 (case decode_slice cleartexts 64 96 of
                     Inl e \<Rightarrow> Inl e
                   | Inr pollOption1Count \<Rightarrow>
                 (case decode_slice cleartexts 96 128 of
                     Inl e \<Rightarrow> Inl e
                   | Inr pollOption2Count \<Rightarrow>
                       Inr (s\<lparr>decryptionContexts := (decryptionContexts s)
                                (requestId := (decryptionContexts s requestId)\<lparr>processed := True\<rparr>)\<rparr>,
                            [DecryptionCompleted requestId
                               (batchId (decryptionContexts s requestId))
                               sentimentScore keywordCount pollOption1Count
                               pollOption2Count])))))"

section \<open>Transactions\<close>

text \<open>
  The external functions as one type of calls, so that a history of the contract is a
  list. A call that reverts leaves the storage as it was.
\<close>

datatype call =
    TransferOwnership address address
  | AddProvider address address
  | RemoveProvider address address
  | SetPaused address bool
  | SetCooldownSeconds address uint256
  | OpenBatch address
  | CloseBatch address
  | SubmitEncryptedData address uint256 euint32 euint32 euint32 euint32
  | RequestBatchDecryption address uint256 uint256
  | MyCallback address uint256 bytes bytes

fun dispatch :: "environment \<Rightarrow> call \<Rightarrow> contract_state \<Rightarrow> result" where
  "dispatch env (TransferOwnership sender newOwner) s = transferOwnership sender newOwner s"
| "dispatch env (AddProvider sender p) s = addProvider sender p s"
| "dispatch env (RemoveProvider sender p) s = removeProvider sender p s"
| "dispatch env (SetPaused sender p) s = setPaused sender p s"
| "dispatch env (SetCooldownSeconds sender c) s = setCooldownSeconds sender c s"
| "dispatch env (OpenBatch sender) s = openBatch env sender s"
| "dispatch env (CloseBatch sender) s = closeBatch sender s"
| "dispatch env (SubmitEncryptedData sender now a b c d) s =
     submitEncryptedData env sender now a b c d s"
| "dispatch env (RequestBatchDecryption sender now requestId) s =
     requestBatchDecryption env sender now requestId s"
| "dispatch env (MyCallback sender requestId cleartexts prf) s =
     myCallback env sender requestId cleartexts prf s"

definition step :: "environment \<Rightarrow> contract_state \<Rightarrow> call \<Rightarrow> contract_state" where
  "step env s c = state_after s (dispatch env c s)"

definition run :: "environment \<Rightarrow> call list \<Rightarrow> contract_state \<Rightarrow> contract_state" where
  "run env cs s = foldl (step env) s cs"

text \<open>Whether a call is a decryption request to which the oracle gave the identifier \<open>r\<close>.\<close>

fun issues :: "uint256 \<Rightarrow> call \<Rightarrow> bool" where
  "issues r (RequestBatchDecryption sender now requestId) = (requestId = r)"
| "issues r c = False"

section \<open>A small instance\<close>

text \<open>
  An instance of the environment on which the operations can be evaluated: a handle is
  the plaintext itself, homomorphic addition is addition, and the digest is an odd
  polynomial of the handles and the address. The oracle's check accepts the one-octet
  proof \<open>[1]\<close>.
\<close>

definition sample_env :: environment where
  "sample_env =
     \<lparr> this = 0xC0DE, asEuint32 = (\<lambda>v. v), fheAdd = (\<lambda>a b. a + b), toBytes32 = (\<lambda>h. h),
       keccak256_abi_encode = (\<lambda>cts a. 1 + 2 * foldr (\<lambda>c acc. c + 31 * acc) cts (ucast a)),
       checkSignatures = (\<lambda>r c p. p = [1]) \<rparr>"

text \<open>
  A history on that instance: address 1 deploys the contract, opens batch 1, submits the
  handles 5, 3, 1, 0 at time 100, closes the batch and requests its decryption at time
  100; the oracle names the request 7.
\<close>

definition sample_history :: "call list" where
  "sample_history =
     [OpenBatch 1, SubmitEncryptedData 1 100 5 3 1 0, CloseBatch 1,
      RequestBatchDecryption 1 100 7]"

definition sample_pending :: contract_state where
  "sample_pending = run sample_env sample_history (fst (constructor 1))"

text \<open>The pending storage with the first accumulator handle altered after the request.\<close>

definition sample_tampered :: contract_state where
  "sample_tampered = sample_pending\<lparr>accSentimentScore := 6\<rparr>"

text \<open>Further storages on that instance: the deployed contract paused by its owner; batch 1
  open; and batch 1 after the first submission, at time 100.\<close>

definition sample_paused :: contract_state where
  "sample_paused = step sample_env (fst (constructor 1)) (SetPaused 1 True)"

definition sample_open :: contract_state where
  "sample_open = step sample_env (fst (constructor 1)) (OpenBatch 1)"

definition sample_submitted :: contract_state where
  "sample_submitted = step sample_env sample_open (SubmitEncryptedData 1 100 5 3 1 0)"

text \<open>
  The continuation of the sample history by a second batch: opened, submitted to at time
  200, closed, and its decryption requested as request 8.
\<close>

definition sample_next_batch :: "call list" where
  "sample_next_batch =
     [OpenBatch 1, SubmitEncryptedData 1 200 2 2 2 2, CloseBatch 1,
      RequestBatchDecryption 1 200 8]"

section \<open>Auxiliary facts\<close>

lemmas call_defs = openBatch_def closeBatch_def submitEncryptedData_def
  requestBatchDecryption_def transferOwnership_def addProvider_def removeProvider_def
  setPaused_def setCooldownSeconds_def onlyOwner_def onlyProvider_def whenNotPaused_def
  requireInitialized_def

lemma decode_slice_ok:
  "j = i + 32 \<Longrightarrow> j \<le> length bs \<Longrightarrow> decode_slice bs i j = Inr (be_uint256 (take 32 (drop i bs)))"
  by (simp add: decode_slice_def slice_def abi_decode_uint256_def)

lemma decode_slice_short:
  "length bs < j \<Longrightarrow> decode_slice bs i j = Inl SliceOutOfBounds"
  by (simp add: decode_slice_def slice_def)

lemma decode_slice_error: "decode_slice bs i j = Inl e \<Longrightarrow> e = SliceOutOfBounds"
  by (auto simp: decode_slice_def slice_def abi_decode_uint256_def split: if_splits sum.splits)

lemma decode_slice_Inr: "decode_slice bs i j = Inr v \<Longrightarrow> j \<le> length bs"
  by (auto simp: decode_slice_def slice_def split: if_splits sum.splits)

lemma myCallback_finalizes:
  assumes "\<not> processed (decryptionContexts s r)"
    and "stateHash (decryptionContexts s r) = computeStateHash env s"
    and "checkSignatures env r cleartexts prf"
    and "128 \<le> length cleartexts"
  shows "myCallback env sender r cleartexts prf s =
           Inr (s\<lparr>decryptionContexts := (decryptionContexts s)
                    (r := (decryptionContexts s r)\<lparr>processed := True\<rparr>)\<rparr>,
                [DecryptionCompleted r (batchId (decryptionContexts s r))
                   (be_uint256 (take 32 cleartexts))
                   (be_uint256 (take 32 (drop 32 cleartexts)))
                   (be_uint256 (take 32 (drop 64 cleartexts)))
                   (be_uint256 (take 32 (drop 96 cleartexts)))])"
  using assms by (simp add: myCallback_def decode_slice_ok)

lemma myCallback_short:
  assumes "length cleartexts < 128"
  shows "\<exists>e. myCallback env sender r cleartexts prf s = Inl e"
  using assms
  by (simp add: myCallback_def Let_def decode_slice_short split: sum.splits)

lemma myCallback_short_error:
  assumes "\<not> processed (decryptionContexts s r)"
    and "stateHash (decryptionContexts s r) = computeStateHash env s"
    and "checkSignatures env r cleartexts prf"
    and "length cleartexts < 128"
  shows "myCallback env sender r cleartexts prf s = Inl SliceOutOfBounds"
proof -
  from myCallback_short [OF assms(4)] obtain e
    where e: "myCallback env sender r cleartexts prf s = Inl e"
    by blast
  then have "e = SliceOutOfBounds"
    using assms(1-3)
    by (auto simp: myCallback_def Let_def split: sum.splits dest: decode_slice_error)
  with e show ?thesis by simp
qed

lemma myCallback_Inr_iff:
  "(\<exists>s' evs. myCallback env sender r cleartexts prf s = Inr (s', evs)) \<longleftrightarrow>
     \<not> processed (decryptionContexts s r) \<and>
     stateHash (decryptionContexts s r) = computeStateHash env s \<and>
     checkSignatures env r cleartexts prf \<and> 128 \<le> length cleartexts"
proof (cases "128 \<le> length cleartexts")
  case True
  then show ?thesis
    by (auto simp: myCallback_def Let_def decode_slice_ok)
next
  case False
  then have "length cleartexts < 128" by simp
  then obtain e where "myCallback env sender r cleartexts prf s = Inl e"
    using myCallback_short by blast
  with False show ?thesis by simp
qed

lemma myCallback_contexts:
  "decryptionContexts (state_after s (myCallback env sender r' cleartexts prf s)) r =
     (if r = r' \<and> (\<exists>s' evs. myCallback env sender r' cleartexts prf s = Inr (s', evs))
      then (decryptionContexts s r)\<lparr>processed := True\<rparr> else decryptionContexts s r)"
  by (auto simp: myCallback_def Let_def state_after_def split: sum.splits)

lemma request_contexts:
  "r \<noteq> r' \<Longrightarrow>
   decryptionContexts (state_after s (requestBatchDecryption env sender now r' s)) r =
     decryptionContexts s r"
  by (auto simp: call_defs Let_def state_after_def split: sum.splits)

lemma admin_contexts:
  "decryptionContexts (state_after s (transferOwnership sender a s)) = decryptionContexts s"
  "decryptionContexts (state_after s (addProvider sender a s)) = decryptionContexts s"
  "decryptionContexts (state_after s (removeProvider sender a s)) = decryptionContexts s"
  "decryptionContexts (state_after s (setPaused sender p s)) = decryptionContexts s"
  "decryptionContexts (state_after s (setCooldownSeconds sender c s)) = decryptionContexts s"
  by (simp_all add: call_defs Let_def state_after_def)

lemma batch_contexts:
  "decryptionContexts (state_after s (openBatch env sender s)) = decryptionContexts s"
  "decryptionContexts (state_after s (closeBatch sender s)) = decryptionContexts s"
  "decryptionContexts (state_after s (submitEncryptedData env sender now a b c d s)) =
     decryptionContexts s"
  by (simp_all add: call_defs Let_def state_after_def split: sum.splits)

lemma step_processed:
  "processed (decryptionContexts s r) \<Longrightarrow> \<not> issues r c \<Longrightarrow>
   processed (decryptionContexts (step env s c) r)"
  by (cases c) (simp_all add: step_def admin_contexts batch_contexts request_contexts
      myCallback_contexts)

lemma run_processed:
  "processed (decryptionContexts s r) \<Longrightarrow> \<forall>c \<in> set cs. \<not> issues r c \<Longrightarrow>
   processed (decryptionContexts (run env cs s) r)"
  unfolding run_def
  by (induction cs arbitrary: s) (simp_all add: step_processed)

lemma sample_env_fields:
  "this sample_env = 0xC0DE"
  "asEuint32 sample_env v = v"
  "fheAdd sample_env a b = a + b"
  "toBytes32 sample_env h = h"
  "keccak256_abi_encode sample_env cts x = 1 + 2 * foldr (\<lambda>c acc. c + 31 * acc) cts (ucast x)"
  "checkSignatures sample_env r c p = (p = [1])"
  by (simp_all add: sample_env_def)

lemma odd_word_nonzero: "1 + 2 * (x::256 word) \<noteq> 0"
proof
  assume "1 + 2 * x = 0"
  then have "even (1 + 2 * x)" by simp
  then show False by simp
qed

lemma sample_digest_nonzero: "keccak256_abi_encode sample_env cts a \<noteq> 0"
  by (simp add: sample_env_fields odd_word_nonzero)

lemmas eval_defs = run_def step_def state_after_def constructor_def zero_state_def
  initIfNeeded_def checked_add_def computeStateHash_def ctsArray_def Let_def

lemma sample_pending_eval:
  "sample_pending =
     \<lparr> owner = 1, providers = (\<lambda>a. False)(1 := True), paused = False, cooldownSeconds = 60,
       lastSubmissionTime = (\<lambda>a. 0)(1 := 100), lastDecryptionRequestTime = (\<lambda>a. 0)(1 := 100),
       currentBatchId = 1, batchOpen = False,
       decryptionContexts = (\<lambda>r. \<lparr> batchId = 0, stateHash = 0, processed = False \<rparr>)
         (7 := \<lparr> batchId = 1, stateHash = 91195853827, processed = False \<rparr>),
       encryptedSentimentScores = (\<lambda>i. 0), encryptedKeywordCounts = (\<lambda>i. 0),
       encryptedPollOption1Counts = (\<lambda>i. 0), encryptedPollOption2Counts = (\<lambda>i. 0),
       accSentimentScore = 5, accKeywordCount = 3, accPollOption1Count = 1,
       accPollOption2Count = 0, submissionsInCurrentBatch = 1, fheInitialized = True \<rparr>"
  by (simp add: sample_pending_def sample_history_def sample_env_fields call_defs eval_defs)

lemma sample_pending_hash: "computeStateHash sample_env sample_pending = 91195853827"
  by (simp add: sample_pending_eval sample_env_fields computeStateHash_def ctsArray_def)

section \<open>The callback on a request that was never issued\<close>

lemma step_unknown:
  assumes "\<forall>cts. keccak256_abi_encode env cts (this env) \<noteq> 0"
    and "decryptionContexts s r = \<lparr> batchId = 0, stateHash = 0, processed = False \<rparr>"
    and "\<not> issues r c"
  shows "decryptionContexts (step env s c) r = \<lparr> batchId = 0, stateHash = 0, processed = False \<rparr>"
  using assms(2,3)
proof (cases c)
  case (MyCallback sender r' cleartexts pf)
  have "computeStateHash env s \<noteq> 0"
    using assms(1) by (simp add: computeStateHash_def)
  with assms(2) have "\<not> (\<exists>s' evs. myCallback env sender r cleartexts pf s = Inr (s', evs))"
    by (simp add: myCallback_Inr_iff)
  with assms(2) MyCallback show ?thesis
    by (auto simp: step_def myCallback_contexts)
qed (simp_all add: step_def admin_contexts batch_contexts request_contexts)

lemma run_unknown:
  assumes "\<forall>cts. keccak256_abi_encode env cts (this env) \<noteq> 0"
    and "decryptionContexts s r = \<lparr> batchId = 0, stateHash = 0, processed = False \<rparr>"
    and "\<forall>c \<in> set cs. \<not> issues r c"
  shows "decryptionContexts (run env cs s) r = \<lparr> batchId = 0, stateHash = 0, processed = False \<rparr>"
  using assms(2,3) unfolding run_def
proof (induction cs arbitrary: s)
  case Nil
  then show ?case by simp
next
  case (Cons c cs)
  from Cons.prems have "decryptionContexts (step env s c) r =
      \<lparr> batchId = 0, stateHash = 0, processed = False \<rparr>"
    using step_unknown [OF assms(1)] by simp
  with Cons show ?case by simp
qed

lemma constructor_contexts:
  "decryptionContexts (fst (constructor deployer)) r =
     \<lparr> batchId = 0, stateHash = 0, processed = False \<rparr>"
  by (simp add: constructor_def zero_state_def initIfNeeded_def Let_def)

text \<open>
  C3, as stated: a delivery for a request identifier under which no context was ever
  stored fails with an error UnknownRequest. The contract has no such error and no lookup
  of its own: on the freshly deployed contract a delivery for the identifier 8 passes the
  replay guard and fails at the comparison of the digests, with StateMismatch.
\<close>

theorem unknown_request_counterexample:
  "decryptionContexts (fst (constructor 1)) 8 = \<lparr> batchId = 0, stateHash = 0, processed = False \<rparr>
   \<and> myCallback sample_env 9 8 (replicate 128 0) [1] (fst (constructor 1)) = Inl StateMismatch"
  by (simp add: constructor_contexts myCallback_def computeStateHash_def sample_digest_nonzero)

text \<open>
  C3, amended: after any history of calls since deployment in which no decryption request
  was given the identifier \<open>r\<close>, a delivery for \<open>r\<close> fails with StateMismatch, for all
  cleartexts, all proofs and every caller, and so changes nothing, provided the digest
  never is the zero word (the stored digest of an absent context).
\<close>

theorem unknown_request_state_mismatch:
  assumes "\<forall>cts. keccak256_abi_encode env cts (this env) \<noteq> 0"
    and "\<forall>c \<in> set history. \<not> issues r c"
  shows "myCallback env sender r cleartexts prf (run env history (fst (constructor deployer))) =
           Inl StateMismatch"
proof -
  let ?s = "run env history (fst (constructor deployer))"
  have "decryptionContexts ?s r = \<lparr> batchId = 0, stateHash = 0, processed = False \<rparr>"
    using run_unknown [OF assms(1) constructor_contexts assms(2)] .
  moreover have "computeStateHash env ?s \<noteq> 0"
    using assms(1) by (simp add: computeStateHash_def)
  ultimately show ?thesis
    by (simp add: myCallback_def)
qed

theorem unknown_request_state_mismatch_witness:
  "myCallback sample_env 9 8 [] [1] (run sample_env sample_history (fst (constructor 1))) =
     Inl StateMismatch"
proof -
  have digest: "\<forall>cts. keccak256_abi_encode sample_env cts (this sample_env) \<noteq> 0"
    by (simp add: sample_digest_nonzero)
  have fresh: "\<forall>c \<in> set sample_history. \<not> issues 8 c"
    by (simp add: sample_history_def)
  show ?thesis
    using unknown_request_state_mismatch [OF digest fresh] .
qed

section \<open>Ownership and the providers\<close>

text \<open>
  C10: a transfer of ownership by the owner writes the field \<open>owner\<close> and nothing else,
  and a transfer by anyone else reverts. The providers are as before: the deployer, whom
  the constructor registered as a provider, still is one after transferring the
  ownership, and the new owner is a provider only if it was one before.
\<close>

theorem transferOwnership_changes_only_owner:
  "transferOwnership sender newOwner s =
     (if sender = owner s
      then Inr (s\<lparr>owner := newOwner\<rparr>, [OwnershipTransferred (owner s) newOwner])
      else Inl NotOwner)
   \<and> providers (state_after s (transferOwnership sender newOwner s)) = providers s
   \<and> (let s0 = fst (constructor deployer);
           s1 = state_after s0 (transferOwnership deployer newOwner s0)
       in owner s1 = newOwner \<and> providers s1 deployer
          \<and> providers s1 newOwner = (newOwner = deployer))"
  by (auto simp: transferOwnership_def onlyOwner_def state_after_def constructor_def
      zero_state_def initIfNeeded_def Let_def)

theorem transferOwnership_changes_only_owner_witness:
  "transferOwnership 1 2 (fst (constructor 1)) =
     Inr ((fst (constructor 1))\<lparr>owner := 2\<rparr>, [OwnershipTransferred 1 2])
   \<and> providers (state_after (fst (constructor 1)) (transferOwnership 1 2 (fst (constructor 1)))) 1
   \<and> \<not> providers (state_after (fst (constructor 1)) (transferOwnership 1 2 (fst (constructor 1)))) 2"
  using transferOwnership_changes_only_owner [of 1 2 "fst (constructor 1)" 1]
  by (simp add: transferOwnership_def onlyOwner_def state_after_def constructor_def
      zero_state_def initIfNeeded_def Let_def)

section \<open>Batch lifecycle\<close>

text \<open>
  The specification names errors by its own taxonomy. Where the contract raises an error
  for the same condition under another name, the theorems use the contract's name:
  NotAuthorized is \<open>NotOwner\<close> or \<open>NotProvider\<close>, SystemPaused is \<open>Paused\<close>,
  BatchAlreadyOpen is the \<open>InvalidBatchId\<close> of \<^verbatim>\<open>openBatch\<close>, BatchStillOpen is
  \<open>BatchNotClosed\<close> and EmptyBatch is the \<open>InvalidBatchId\<close> of
  \<^verbatim>\<open>requestBatchDecryption\<close>.
\<close>

lemma sample_deployed_eval:
  "fst (constructor 1) =
     zero_state\<lparr>owner := 1, providers := (\<lambda>a. False)(1 := True), cooldownSeconds := 60,
                 fheInitialized := True\<rparr>"
  by (simp add: constructor_def zero_state_def initIfNeeded_def Let_def)

text \<open>
  C7: for a decryption request that the owner makes while the contract is not paused (the
  two modifiers run first), the request fails with \<open>BatchNotClosed\<close> whenever the batch
  is open, and with \<open>InvalidBatchId\<close> whenever the batch is closed and has no
  submission. Whatever lies past these two gates, the cooldown, the overflow check and the
  success, is reached only with a closed batch of at least one submission.
\<close>

theorem requestBatchDecryption_gates:
  assumes "sender = owner s" and "\<not> paused s"
  shows "(batchOpen s \<longrightarrow> requestBatchDecryption env sender now requestId s = Inl BatchNotClosed)
       \<and> (\<not> batchOpen s \<and> submissionsInCurrentBatch s = 0 \<longrightarrow>
            requestBatchDecryption env sender now requestId s = Inl InvalidBatchId)
       \<and> (requestBatchDecryption env sender now requestId s = Inl CooldownActive
            \<or> requestBatchDecryption env sender now requestId s = Inl ArithmeticPanic
            \<or> (\<exists>s' evs. requestBatchDecryption env sender now requestId s = Inr (s', evs))
          \<longrightarrow> \<not> batchOpen s \<and> 0 < unat (submissionsInCurrentBatch s))"
  using assms
  by (auto simp: requestBatchDecryption_def onlyOwner_def whenNotPaused_def Let_def unat_gt_0
      split: sum.splits if_splits)

theorem requestBatchDecryption_gates_witness:
  "requestBatchDecryption sample_env 1 200 8 (step sample_env sample_pending (OpenBatch 1)) =
     Inl BatchNotClosed
   \<and> requestBatchDecryption sample_env 1 200 8 (fst (constructor 1)) = Inl InvalidBatchId
   \<and> requestBatchDecryption sample_env 1 100 8 sample_pending = Inl CooldownActive
   \<and> \<not> batchOpen sample_pending \<and> 0 < unat (submissionsInCurrentBatch sample_pending)"
proof -
  let ?open = "step sample_env sample_pending (OpenBatch 1)"
  have o: "owner ?open = 1" "\<not> paused ?open" "batchOpen ?open"
    by (simp_all add: sample_pending_eval sample_env_fields call_defs eval_defs)
  have d: "owner (fst (constructor 1)) = 1" "\<not> paused (fst (constructor 1))"
    "\<not> batchOpen (fst (constructor 1))" "submissionsInCurrentBatch (fst (constructor 1)) = 0"
    by (simp_all add: sample_deployed_eval zero_state_def)
  have p: "owner sample_pending = 1" "\<not> paused sample_pending"
    by (simp_all add: sample_pending_eval)
  have c: "requestBatchDecryption sample_env 1 100 8 sample_pending = Inl CooldownActive"
    by (simp add: sample_pending_eval sample_env_fields call_defs eval_defs)
  show ?thesis
    using requestBatchDecryption_gates [of 1 ?open sample_env 200 8]
      requestBatchDecryption_gates [of 1 "fst (constructor 1)" sample_env 200 8]
      requestBatchDecryption_gates [of 1 sample_pending sample_env 100 8]
      o d p c
    by simp
qed

text \<open>
  C8: while a batch is open, \<^verbatim>\<open>openBatch\<close>, called by the owner while not paused, fails
  with \<open>InvalidBatchId\<close> and changes no state. While no batch is open,
  \<^verbatim>\<open>closeBatch\<close> by the owner and \<^verbatim>\<open>submitEncryptedData\<close> by a provider, the contract not
  paused, fail with \<open>BatchNotOpen\<close>.
\<close>

theorem batch_lifecycle_errors:
  assumes "sender = owner s" and "providers s provider" and "\<not> paused s"
  shows "(batchOpen s \<longrightarrow>
            openBatch env sender s = Inl InvalidBatchId
            \<and> state_after s (openBatch env sender s) = s)
       \<and> (\<not> batchOpen s \<longrightarrow>
            closeBatch sender s = Inl BatchNotOpen
            \<and> submitEncryptedData env provider now a b c d s = Inl BatchNotOpen)"
  using assms
  by (simp add: openBatch_def closeBatch_def submitEncryptedData_def onlyOwner_def
      onlyProvider_def whenNotPaused_def state_after_def)

theorem batch_lifecycle_errors_witness:
  "openBatch sample_env 1 (step sample_env sample_pending (OpenBatch 1)) = Inl InvalidBatchId
   \<and> closeBatch 1 sample_pending = Inl BatchNotOpen
   \<and> submitEncryptedData sample_env 1 200 5 3 1 0 sample_pending = Inl BatchNotOpen"
proof -
  let ?open = "step sample_env sample_pending (OpenBatch 1)"
  have o: "owner ?open = 1" "providers ?open 1" "\<not> paused ?open" "batchOpen ?open"
    by (simp_all add: sample_pending_eval sample_env_fields call_defs eval_defs)
  have p: "owner sample_pending = 1" "providers sample_pending 1" "\<not> paused sample_pending"
    "\<not> batchOpen sample_pending"
    by (simp_all add: sample_pending_eval)
  show ?thesis
    using batch_lifecycle_errors [of 1 ?open 1 sample_env 200 5 3 1 0]
      batch_lifecycle_errors [of 1 sample_pending 1 sample_env 200 5 3 1 0] o p
    by simp
qed

section \<open>Pause\<close>

lemma sample_paused_eval:
  "sample_paused =
     zero_state\<lparr>owner := 1, providers := (\<lambda>a. False)(1 := True), paused := True,
                 cooldownSeconds := 60, fheInitialized := True\<rparr>"
  by (simp add: sample_paused_def sample_deployed_eval step_def state_after_def setPaused_def
      onlyOwner_def zero_state_def)

text \<open>
  C5, as stated: while the contract is paused every call of \<^verbatim>\<open>openBatch\<close> fails with the
  error \<open>Paused\<close>. The modifier \<^verbatim>\<open>onlyOwner\<close> runs before \<^verbatim>\<open>whenNotPaused\<close>: on the
  paused contract that address 1 deployed, the call of \<^verbatim>\<open>openBatch\<close> by address 2 fails
  with \<open>NotOwner\<close>, and its submission with \<open>NotProvider\<close>.
\<close>

theorem paused_error_counterexample:
  "paused sample_paused
   \<and> openBatch sample_env 2 sample_paused = Inl NotOwner
   \<and> submitEncryptedData sample_env 2 100 5 3 1 0 sample_paused = Inl NotProvider"
  by (simp add: sample_paused_eval zero_state_def openBatch_def submitEncryptedData_def
      onlyOwner_def onlyProvider_def)

text \<open>
  C5, amended: while the contract is paused, every call of \<^verbatim>\<open>openBatch\<close>,
  \<^verbatim>\<open>closeBatch\<close>, \<^verbatim>\<open>submitEncryptedData\<close> and \<^verbatim>\<open>requestBatchDecryption\<close> fails: with
  \<open>Paused\<close> when the caller has the role the function asks for, and with \<open>NotOwner\<close> or
  \<open>NotProvider\<close> otherwise, since the role is checked first. The callback does not read
  the flag: on two storages that differ in \<open>paused\<close> only it gives the same error, or the
  same events and storages that again differ in \<open>paused\<close> only.
\<close>

theorem pause_semantics:
  assumes "paused s"
  shows "openBatch env sender s = Inl (if sender = owner s then Paused else NotOwner)
       \<and> closeBatch sender s = Inl (if sender = owner s then Paused else NotOwner)
       \<and> submitEncryptedData env sender now a b c d s =
           Inl (if providers s sender then Paused else NotProvider)
       \<and> requestBatchDecryption env sender now requestId s =
           Inl (if sender = owner s then Paused else NotOwner)
       \<and> myCallback env sender requestId cleartexts prf (s\<lparr>paused := flag\<rparr>) =
           map_sum id (\<lambda>(s', evs). (s'\<lparr>paused := flag\<rparr>, evs))
             (myCallback env sender requestId cleartexts prf s)"
  using assms
  by (simp add: call_defs myCallback_def computeStateHash_def ctsArray_def Let_def
      split: sum.splits)

theorem pause_semantics_witness:
  "openBatch sample_env 1 sample_paused = Inl Paused
   \<and> closeBatch 1 sample_paused = Inl Paused
   \<and> submitEncryptedData sample_env 1 100 5 3 1 0 sample_paused = Inl Paused
   \<and> requestBatchDecryption sample_env 1 100 7 sample_paused = Inl Paused
   \<and> closeBatch 2 sample_paused = Inl NotOwner"
proof -
  have p: "paused sample_paused" "owner sample_paused = 1" "providers sample_paused 1"
    by (simp_all add: sample_paused_eval zero_state_def)
  show ?thesis
    using pause_semantics [OF p(1), of sample_env 1 100 5 3 1 0 7]
      pause_semantics [OF p(1), of sample_env 2 100 5 3 1 0 7] p
    by simp
qed

section \<open>Cooldown\<close>

lemma checked_add_Inr:
  "unat a + unat b < 2 ^ 256 \<Longrightarrow> checked_add a b = Inr (a + b)"
  by (simp add: checked_add_def)

lemma submit_success_state:
  assumes "submitEncryptedData env p t a b c d s = Inr (s', evs)"
  shows "providers s' = providers s" and "paused s' = paused s" and "batchOpen s' = batchOpen s"
    and "fheInitialized s' = fheInitialized s" and "cooldownSeconds s' = cooldownSeconds s"
    and "lastSubmissionTime s' = (lastSubmissionTime s)(p := t)"
    and "providers s p" and "\<not> paused s" and "batchOpen s" and "fheInitialized s"
  using assms
  by (auto simp: submitEncryptedData_def onlyProvider_def whenNotPaused_def
      requireInitialized_def Let_def split: sum.splits if_splits)

text \<open>
  C6: after a successful submission of the provider \<open>p\<close> at time \<open>t1\<close>, and with the
  other preconditions of a submission holding (the provider, pause, open batch and
  initialisation carry over from the first submission; neither \<open>t1 + cooldownSeconds\<close>
  nor the submission counter overflows 256 bits), a second submission of \<open>p\<close> at time
  \<open>t2\<close> fails with \<open>CooldownActive\<close> if and only if \<open>t2 < t1 + cooldownSeconds\<close>;
  otherwise, so at \<open>t2 = t1 + cooldownSeconds\<close> exactly, it succeeds and records \<open>t2\<close> as
  the last submission time of \<open>p\<close>.
\<close>

theorem cooldown_boundary:
  assumes first: "submitEncryptedData env p t1 a b c d s0 = Inr (s1, evs1)"
    and fits: "unat t1 + unat (cooldownSeconds s1) < 2 ^ 256"
    and room: "unat (submissionsInCurrentBatch s1) + unat (1 :: uint256) < 2 ^ 256"
  shows "(submitEncryptedData env p t2 a' b' c' d' s1 = Inl CooldownActive
            \<longleftrightarrow> t2 < t1 + cooldownSeconds s1)
       \<and> (\<not> t2 < t1 + cooldownSeconds s1 \<longrightarrow>
            (\<exists>s2 evs2. submitEncryptedData env p t2 a' b' c' d' s1 = Inr (s2, evs2)
               \<and> lastSubmissionTime s2 p = t2))
       \<and> (\<exists>s2 evs2. submitEncryptedData env p (t1 + cooldownSeconds s1) a' b' c' d' s1 =
              Inr (s2, evs2)
            \<and> lastSubmissionTime s2 p = t1 + cooldownSeconds s1)"
proof -
  note st = submit_success_state [OF first]
  have pre: "providers s1 p" "\<not> paused s1" "batchOpen s1" "fheInitialized s1"
    "lastSubmissionTime s1 p = t1"
    using st by simp_all
  have ready: "checked_add (lastSubmissionTime s1 p) (cooldownSeconds s1) =
      Inr (t1 + cooldownSeconds s1)"
    using fits pre(5) by (simp add: checked_add_Inr)
  have count: "checked_add (submissionsInCurrentBatch s1) 1 =
      Inr (submissionsInCurrentBatch s1 + 1)"
    using room by (rule checked_add_Inr)
  have run: "submitEncryptedData env p t a' b' c' d' s1 =
      (if t < t1 + cooldownSeconds s1 then Inl CooldownActive
       else Inr (s1\<lparr>lastSubmissionTime := (lastSubmissionTime s1)(p := t),
                   accSentimentScore := fheAdd env (accSentimentScore s1) a',
                   accKeywordCount := fheAdd env (accKeywordCount s1) b',
                   accPollOption1Count := fheAdd env (accPollOption1Count s1) c',
                   accPollOption2Count := fheAdd env (accPollOption2Count s1) d',
                   submissionsInCurrentBatch := submissionsInCurrentBatch s1 + 1\<rparr>,
                 [Submission (currentBatchId s1) p]))" for t
    using pre ready count
    by (simp add: submitEncryptedData_def onlyProvider_def whenNotPaused_def
        requireInitialized_def Let_def)
  show ?thesis
    by (simp add: run)
qed

lemma sample_open_eval:
  "sample_open =
     zero_state\<lparr>owner := 1, providers := (\<lambda>a. False)(1 := True), cooldownSeconds := 60,
                 currentBatchId := 1, batchOpen := True, fheInitialized := True\<rparr>"
  by (simp add: sample_open_def sample_deployed_eval sample_env_fields step_def state_after_def
      openBatch_def onlyOwner_def whenNotPaused_def checked_add_def zero_state_def)

lemma sample_first_submission:
  "submitEncryptedData sample_env 1 100 5 3 1 0 sample_open =
     Inr (sample_submitted, [Submission 1 1])"
  by (simp add: sample_submitted_def step_def state_after_def sample_open_eval
      sample_env_fields submitEncryptedData_def onlyProvider_def whenNotPaused_def
      requireInitialized_def checked_add_def zero_state_def Let_def)

lemma sample_submitted_fields:
  "cooldownSeconds sample_submitted = 60" "submissionsInCurrentBatch sample_submitted = 1"
  using submit_success_state(5) [OF sample_first_submission]
  by (simp_all add: sample_submitted_def step_def state_after_def sample_open_eval
      sample_env_fields submitEncryptedData_def onlyProvider_def whenNotPaused_def
      requireInitialized_def checked_add_def zero_state_def Let_def)

theorem cooldown_boundary_witness:
  "submitEncryptedData sample_env 1 159 2 2 2 2 sample_submitted = Inl CooldownActive
   \<and> (\<exists>s2 evs2. submitEncryptedData sample_env 1 160 2 2 2 2 sample_submitted = Inr (s2, evs2)
         \<and> lastSubmissionTime s2 1 = 160)"
proof -
  have fits: "unat (100 :: uint256) + unat (cooldownSeconds sample_submitted) < 2 ^ 256"
    by (simp add: sample_submitted_fields)
  have room: "unat (submissionsInCurrentBatch sample_submitted) + unat (1 :: uint256) < 2 ^ 256"
    by (simp add: sample_submitted_fields)
  show ?thesis
    using cooldown_boundary [OF sample_first_submission fits room, of 159 2 2 2 2]
      cooldown_boundary [OF sample_first_submission fits room, of 160 2 2 2 2]
    by (simp add: sample_submitted_fields)
qed

section \<open>Finalization of a delivery\<close>

lemma sample_pending_context:
  "decryptionContexts sample_pending 7 =
     \<lparr> batchId = 1, stateHash = 91195853827, processed = False \<rparr>"
  by (simp add: sample_pending_eval)

text \<open>
  C1, as stated: a delivery for a pending context whose digest matches succeeds whenever
  the proof is valid. The callback decodes four 32-octet words out of the cleartexts after
  the proof check: on the pending request 7 of the sample history, a delivery that the
  oracle's check accepts and that carries no cleartexts reverts in the first slice, and
  the context stays pending.
\<close>

theorem finalization_counterexample:
  "\<not> processed (decryptionContexts sample_pending 7)
   \<and> stateHash (decryptionContexts sample_pending 7) = computeStateHash sample_env sample_pending
   \<and> checkSignatures sample_env 7 [] [1]
   \<and> myCallback sample_env 9 7 [] [1] sample_pending = Inl SliceOutOfBounds"
  by (simp add: sample_pending_context sample_pending_hash sample_env_fields myCallback_def
      decode_slice_short)

text \<open>
  C1, amended: for every request identifier \<open>r\<close> whose stored context is not processed
  and whose stored digest equals the recomputed one, a delivery with a valid proof and
  cleartexts of at least 128 octets succeeds, sets \<open>processed\<close> and emits
  DecryptionCompleted with the context's batch and the four decoded words. After any later
  calls, among which the oracle gives \<open>r\<close> to no new request, every delivery for \<open>r\<close>, by
  any caller and with any cleartexts and proof, fails with \<open>ReplayDetected\<close>, emits
  nothing and changes no state.
\<close>

theorem exactly_once_finalization:
  assumes pending: "\<not> processed (decryptionContexts s r)"
    and bound: "stateHash (decryptionContexts s r) = computeStateHash env s"
    and valid: "checkSignatures env r cleartexts prf"
    and wellformed: "128 \<le> length cleartexts"
    and fresh: "\<forall>c \<in> set later. \<not> issues r c"
  shows "myCallback env sender r cleartexts prf s =
           Inr (s\<lparr>decryptionContexts := (decryptionContexts s)
                    (r := (decryptionContexts s r)\<lparr>processed := True\<rparr>)\<rparr>,
                [DecryptionCompleted r (batchId (decryptionContexts s r))
                   (be_uint256 (take 32 cleartexts))
                   (be_uint256 (take 32 (drop 32 cleartexts)))
                   (be_uint256 (take 32 (drop 64 cleartexts)))
                   (be_uint256 (take 32 (drop 96 cleartexts)))])
       \<and> (let s1 = state_after s (myCallback env sender r cleartexts prf s);
               s2 = run env later s1;
               again = myCallback env sender' r cleartexts' prf' s2
           in processed (decryptionContexts s1 r)
              \<and> again = Inl ReplayDetected \<and> events_of again = [] \<and> state_after s2 again = s2)"
proof -
  let ?s1 = "state_after s (myCallback env sender r cleartexts prf s)"
  note fin = myCallback_finalizes [OF pending bound valid wellformed, of sender]
  have "processed (decryptionContexts ?s1 r)"
    by (simp add: fin state_after_def)
  then have "processed (decryptionContexts (run env later ?s1) r)"
    using fresh by (rule run_processed)
  then have "myCallback env sender' r cleartexts' prf' (run env later ?s1) = Inl ReplayDetected"
    by (simp add: myCallback_def)
  with \<open>processed (decryptionContexts ?s1 r)\<close> fin show ?thesis
    by (simp add: Let_def events_of_def state_after_def)
qed

theorem exactly_once_finalization_witness:
  "myCallback sample_env 9 7 (replicate 128 0) [1] sample_pending =
     Inr (sample_pending\<lparr>decryptionContexts := (decryptionContexts sample_pending)
            (7 := (decryptionContexts sample_pending 7)\<lparr>processed := True\<rparr>)\<rparr>,
          [DecryptionCompleted 7 (batchId (decryptionContexts sample_pending 7))
             (be_uint256 (take 32 (replicate 128 0)))
             (be_uint256 (take 32 (drop 32 (replicate 128 0))))
             (be_uint256 (take 32 (drop 64 (replicate 128 0))))
             (be_uint256 (take 32 (drop 96 (replicate 128 0))))])
   \<and> (let s1 = state_after sample_pending
                  (myCallback sample_env 9 7 (replicate 128 0) [1] sample_pending);
           s2 = run sample_env [OpenBatch 1, CloseBatch 1] s1;
           again = myCallback sample_env 1 7 (replicate 128 0) [1] s2
       in processed (decryptionContexts s1 7)
          \<and> again = Inl ReplayDetected \<and> events_of again = [] \<and> state_after s2 again = s2)"
proof -
  have pending: "\<not> processed (decryptionContexts sample_pending 7)"
    by (simp add: sample_pending_context)
  have bound: "stateHash (decryptionContexts sample_pending 7) =
      computeStateHash sample_env sample_pending"
    by (simp add: sample_pending_context sample_pending_hash)
  have valid: "checkSignatures sample_env 7 (replicate 128 0) [1]"
    by (simp add: sample_env_fields)
  have wellformed: "128 \<le> length (replicate 128 (0 :: 8 word))"
    by simp
  have fresh: "\<forall>c \<in> set [OpenBatch 1, CloseBatch 1]. \<not> issues 7 c"
    by simp
  show ?thesis
    by (rule exactly_once_finalization [OF pending bound valid wellformed fresh])
qed

section \<open>The callback and its caller\<close>

text \<open>
  C9, as stated: any address can invoke the callback, and only the replay flag, the
  comparison of the digests and the proof check stand between a caller and finalization.
  The decoding of the cleartexts stands there as well: on the pending request 7 of the
  sample history a delivery with 127 octets of cleartexts passes all three checks, and
  neither the owner nor another address finalizes it; both calls revert in the last
  slice.
\<close>

theorem caller_checks_counterexample:
  "\<not> processed (decryptionContexts sample_pending 7)
   \<and> computeStateHash sample_env sample_pending = stateHash (decryptionContexts sample_pending 7)
   \<and> checkSignatures sample_env 7 (replicate 127 0) [1]
   \<and> myCallback sample_env 1 7 (replicate 127 0) [1] sample_pending = Inl SliceOutOfBounds
   \<and> myCallback sample_env 9 7 (replicate 127 0) [1] sample_pending = Inl SliceOutOfBounds"
proof -
  have pending: "\<not> processed (decryptionContexts sample_pending 7)"
    by (simp add: sample_pending_context)
  have bound: "stateHash (decryptionContexts sample_pending 7) =
      computeStateHash sample_env sample_pending"
    by (simp add: sample_pending_context sample_pending_hash)
  have valid: "checkSignatures sample_env 7 (replicate 127 0) [1]"
    by (simp add: sample_env_fields)
  have short: "length (replicate 127 (0 :: 8 word)) < 128"
    by simp
  show ?thesis
    using pending bound valid myCallback_short_error [OF pending bound valid short]
    by simp
qed

text \<open>
  C9, amended: the callback applies no check of its caller: two deliveries that differ in
  \<^verbatim>\<open>msg.sender\<close> only, on the same storage and with the same request identifier,
  cleartexts and proof, have the same outcome. For every caller that outcome is decided
  by four checks, in this order: the replay flag (\<open>ReplayDetected\<close>), the comparison of
  the digests (\<open>StateMismatch\<close>), the proof check (\<open>InvalidProof\<close>) and the decoding
  of four 32-octet words, which reverts on cleartexts shorter than 128 octets; a delivery
  that passes the four finalizes: it sets \<open>processed\<close> and emits DecryptionCompleted.
\<close>

theorem myCallback_caller_independent:
  "myCallback env sender1 r cleartexts prf s = myCallback env sender2 r cleartexts prf s
   \<and> myCallback env sender1 r cleartexts prf s =
       (if processed (decryptionContexts s r) then Inl ReplayDetected
        else if computeStateHash env s \<noteq> stateHash (decryptionContexts s r)
          then Inl StateMismatch
        else if \<not> checkSignatures env r cleartexts prf then Inl InvalidProof
        else if length cleartexts < 128 then Inl SliceOutOfBounds
        else Inr (s\<lparr>decryptionContexts := (decryptionContexts s)
                     (r := (decryptionContexts s r)\<lparr>processed := True\<rparr>)\<rparr>,
                  [DecryptionCompleted r (batchId (decryptionContexts s r))
                     (be_uint256 (take 32 cleartexts))
                     (be_uint256 (take 32 (drop 32 cleartexts)))
                     (be_uint256 (take 32 (drop 64 cleartexts)))
                     (be_uint256 (take 32 (drop 96 cleartexts)))]))"
proof (intro conjI)
  show "myCallback env sender1 r cleartexts prf s = myCallback env sender2 r cleartexts prf s"
    by (simp add: myCallback_def)
next
  consider (replay) "processed (decryptionContexts s r)"
    | (mismatch) "\<not> processed (decryptionContexts s r)"
        "computeStateHash env s \<noteq> stateHash (decryptionContexts s r)"
    | (invalid) "\<not> processed (decryptionContexts s r)"
        "stateHash (decryptionContexts s r) = computeStateHash env s"
        "\<not> checkSignatures env r cleartexts prf"
    | (short) "\<not> processed (decryptionContexts s r)"
        "stateHash (decryptionContexts s r) = computeStateHash env s"
        "checkSignatures env r cleartexts prf" "length cleartexts < 128"
    | (final) "\<not> processed (decryptionContexts s r)"
        "stateHash (decryptionContexts s r) = computeStateHash env s"
        "checkSignatures env r cleartexts prf" "128 \<le> length cleartexts"
    by fastforce
  then show "myCallback env sender1 r cleartexts prf s =
       (if processed (decryptionContexts s r) then Inl ReplayDetected
        else if computeStateHash env s \<noteq> stateHash (decryptionContexts s r)
          then Inl StateMismatch
        else if \<not> checkSignatures env r cleartexts prf then Inl InvalidProof
        else if length cleartexts < 128 then Inl SliceOutOfBounds
        else Inr (s\<lparr>decryptionContexts := (decryptionContexts s)
                     (r := (decryptionContexts s r)\<lparr>processed := True\<rparr>)\<rparr>,
                  [DecryptionCompleted r (batchId (decryptionContexts s r))
                     (be_uint256 (take 32 cleartexts))
                     (be_uint256 (take 32 (drop 32 cleartexts)))
                     (be_uint256 (take 32 (drop 64 cleartexts)))
                     (be_uint256 (take 32 (drop 96 cleartexts)))]))"
  proof cases
    case replay
    then show ?thesis by (simp add: myCallback_def)
  next
    case mismatch
    then show ?thesis by (simp add: myCallback_def)
  next
    case invalid
    then show ?thesis by (simp add: myCallback_def)
  next
    case short
    then show ?thesis by (simp add: myCallback_short_error)
  next
    case final
    then show ?thesis by (simp add: myCallback_finalizes)
  qed
qed

theorem myCallback_caller_independent_witness:
  "myCallback sample_env 1 7 (replicate 128 0) [1] sample_pending =
     myCallback sample_env 9 7 (replicate 128 0) [1] sample_pending
   \<and> myCallback sample_env 9 7 (replicate 128 0) [1] sample_pending =
       Inr (sample_pending\<lparr>decryptionContexts := (decryptionContexts sample_pending)
              (7 := (decryptionContexts sample_pending 7)\<lparr>processed := True\<rparr>)\<rparr>,
            [DecryptionCompleted 7 1
               (be_uint256 (take 32 (replicate 128 0)))
               (be_uint256 (take 32 (drop 32 (replicate 128 0))))
               (be_uint256 (take 32 (drop 64 (replicate 128 0))))
               (be_uint256 (take 32 (drop 96 (replicate 128 0))))])
   \<and> myCallback sample_env 9 7 (replicate 128 0) [] sample_pending = Inl InvalidProof
   \<and> myCallback sample_env 1 7 (replicate 128 0) [] sample_pending = Inl InvalidProof"
  using myCallback_caller_independent [of sample_env 1 7 "replicate 128 0" "[1]" sample_pending 9]
    myCallback_caller_independent [of sample_env 9 7 "replicate 128 0" "[1]" sample_pending 1]
    myCallback_caller_independent [of sample_env 9 7 "replicate 128 0" "[]" sample_pending 1]
    myCallback_caller_independent [of sample_env 1 7 "replicate 128 0" "[]" sample_pending 9]
  by (simp add: sample_pending_context sample_pending_hash sample_env_fields)

section \<open>Tampering and retry\<close>

lemma request_stores_digest:
  assumes "requestBatchDecryption env sender now r s0 = Inr (s1, evs1)"
  shows "decryptionContexts s1 r =
           \<lparr> batchId = currentBatchId s0, stateHash = computeStateHash env s0,
             processed = False \<rparr>"
  using assms
  by (auto simp: requestBatchDecryption_def onlyOwner_def whenNotPaused_def Let_def
      computeStateHash_def ctsArray_def split: sum.splits if_splits)

text \<open>
  C4: when the accumulator handles at delivery time differ from the handles of the moment
  of the request, whose digest the request stored, the context being as the request left
  it, the delivery fails with \<open>StateMismatch\<close>, the digest not colliding on the two
  lists of handles (the contract sees the handles through the digest only). More
  generally, for a context not yet processed and a stored digest computed from handles
  \<open>hs\<close>, the delivery fails with \<open>StateMismatch\<close> whenever the recomputed digest
  differs from the stored one, and only when the handles differ from \<open>hs\<close>. Whenever a
  delivery fails with \<open>StateMismatch\<close> or \<open>InvalidProof\<close>, the storage is unchanged
  and the context is still not processed; and on every later storage \<open>s'\<close> that has the
  same context for the request and handles whose digest is the stored one, a delivery for
  the same request with a valid proof and the four words of cleartexts succeeds and sets
  \<open>processed\<close>.
\<close>

theorem tamper_detection_retryable:
  "(requestBatchDecryption env requester now r s0 = Inr (s1, evs1)
      \<and> decryptionContexts s r = decryptionContexts s1 r
      \<and> ctsArray s \<noteq> ctsArray s0
      \<and> (computeStateHash env s = computeStateHash env s0 \<longrightarrow> ctsArray s = ctsArray s0)
     \<longrightarrow> myCallback env sender r cleartexts pf s = Inl StateMismatch)
   \<and> (\<not> processed (decryptionContexts s r)
      \<and> stateHash (decryptionContexts s r) =
          keccak256_abi_encode env (map (toBytes32 env) hs) (this env)
      \<and> ctsArray s \<noteq> hs
      \<and> (keccak256_abi_encode env (map (toBytes32 env) (ctsArray s)) (this env) =
           keccak256_abi_encode env (map (toBytes32 env) hs) (this env)
          \<longrightarrow> ctsArray s = hs)
     \<longrightarrow> myCallback env sender r cleartexts pf s = Inl StateMismatch)
   \<and> (\<not> processed (decryptionContexts s r)
      \<and> computeStateHash env s \<noteq> stateHash (decryptionContexts s r)
     \<longrightarrow> myCallback env sender r cleartexts pf s = Inl StateMismatch)
   \<and> (myCallback env sender r cleartexts pf s = Inl StateMismatch
      \<and> stateHash (decryptionContexts s r) =
          keccak256_abi_encode env (map (toBytes32 env) hs) (this env)
     \<longrightarrow> ctsArray s \<noteq> hs)
   \<and> (myCallback env sender r cleartexts pf s = Inl StateMismatch
      \<or> myCallback env sender r cleartexts pf s = Inl InvalidProof
     \<longrightarrow> state_after s (myCallback env sender r cleartexts pf s) = s
         \<and> \<not> processed (decryptionContexts s r)
         \<and> (decryptionContexts s' r = decryptionContexts s r
              \<and> computeStateHash env s' = stateHash (decryptionContexts s r)
              \<and> checkSignatures env r cleartexts' pf' \<and> 128 \<le> length cleartexts'
            \<longrightarrow> (\<exists>s2 evs. myCallback env sender' r cleartexts' pf' s' = Inr (s2, evs)
                   \<and> processed (decryptionContexts s2 r)
                   \<and> events_of (myCallback env sender' r cleartexts' pf' s') \<noteq> [])))"
proof (intro conjI impI)
  assume a: "requestBatchDecryption env requester now r s0 = Inr (s1, evs1)
      \<and> decryptionContexts s r = decryptionContexts s1 r
      \<and> ctsArray s \<noteq> ctsArray s0
      \<and> (computeStateHash env s = computeStateHash env s0 \<longrightarrow> ctsArray s = ctsArray s0)"
  then have ctx: "decryptionContexts s r =
      \<lparr> batchId = currentBatchId s0, stateHash = computeStateHash env s0, processed = False \<rparr>"
    using request_stores_digest [of env requester now r s0 s1 evs1] by simp
  from a have "computeStateHash env s \<noteq> computeStateHash env s0"
    by blast
  then show "myCallback env sender r cleartexts pf s = Inl StateMismatch"
    by (simp add: myCallback_def ctx)
next
  assume "\<not> processed (decryptionContexts s r)
      \<and> stateHash (decryptionContexts s r) =
          keccak256_abi_encode env (map (toBytes32 env) hs) (this env)
      \<and> ctsArray s \<noteq> hs
      \<and> (keccak256_abi_encode env (map (toBytes32 env) (ctsArray s)) (this env) =
           keccak256_abi_encode env (map (toBytes32 env) hs) (this env)
          \<longrightarrow> ctsArray s = hs)"
  then show "myCallback env sender r cleartexts pf s = Inl StateMismatch"
    by (auto simp: myCallback_def computeStateHash_def)
next
  assume "\<not> processed (decryptionContexts s r)
      \<and> computeStateHash env s \<noteq> stateHash (decryptionContexts s r)"
  then show "myCallback env sender r cleartexts pf s = Inl StateMismatch"
    by (simp add: myCallback_def)
next
  assume "myCallback env sender r cleartexts pf s = Inl StateMismatch
      \<and> stateHash (decryptionContexts s r) =
          keccak256_abi_encode env (map (toBytes32 env) hs) (this env)"
  then show "ctsArray s \<noteq> hs"
    by (auto simp: myCallback_def computeStateHash_def Let_def split: if_splits sum.splits
        dest: decode_slice_error)
next
  assume failed: "myCallback env sender r cleartexts pf s = Inl StateMismatch
      \<or> myCallback env sender r cleartexts pf s = Inl InvalidProof"
  then show "state_after s (myCallback env sender r cleartexts pf s) = s"
    by (auto simp: state_after_def)
next
  assume failed: "myCallback env sender r cleartexts pf s = Inl StateMismatch
      \<or> myCallback env sender r cleartexts pf s = Inl InvalidProof"
  then show "\<not> processed (decryptionContexts s r)"
    by (auto simp: myCallback_def split: if_splits)
next
  assume failed: "myCallback env sender r cleartexts pf s = Inl StateMismatch
      \<or> myCallback env sender r cleartexts pf s = Inl InvalidProof"
    and later: "decryptionContexts s' r = decryptionContexts s r
      \<and> computeStateHash env s' = stateHash (decryptionContexts s r)
      \<and> checkSignatures env r cleartexts' pf' \<and> 128 \<le> length cleartexts'"
  have "\<not> processed (decryptionContexts s r)"
    using failed by (auto simp: myCallback_def split: if_splits)
  with later have pending: "\<not> processed (decryptionContexts s' r)"
    and bound: "stateHash (decryptionContexts s' r) = computeStateHash env s'"
    and valid: "checkSignatures env r cleartexts' pf'"
    and wellformed: "128 \<le> length cleartexts'"
    by simp_all
  show "\<exists>s2 evs. myCallback env sender' r cleartexts' pf' s' = Inr (s2, evs)
      \<and> processed (decryptionContexts s2 r)
      \<and> events_of (myCallback env sender' r cleartexts' pf' s') \<noteq> []"
    using myCallback_finalizes [OF pending bound valid wellformed, of sender']
    by (simp add: events_of_def)
qed

lemma sample_tampered_facts:
  "decryptionContexts sample_tampered 7 =
     \<lparr> batchId = 1, stateHash = 91195853827, processed = False \<rparr>"
  "computeStateHash sample_env sample_tampered = 91195853829"
  "ctsArray sample_tampered = [6, 3, 1, 0]"
  by (simp_all add: sample_tampered_def sample_pending_eval sample_env_fields
      computeStateHash_def ctsArray_def)

lemma sample_request:
  "requestBatchDecryption sample_env 1 100 7
     (run sample_env [OpenBatch 1, SubmitEncryptedData 1 100 5 3 1 0, CloseBatch 1]
        (fst (constructor 1))) =
   Inr (sample_pending, [DecryptionRequested 7 1])"
  "ctsArray (run sample_env [OpenBatch 1, SubmitEncryptedData 1 100 5 3 1 0, CloseBatch 1]
     (fst (constructor 1))) = [5, 3, 1, 0]"
  "computeStateHash sample_env
     (run sample_env [OpenBatch 1, SubmitEncryptedData 1 100 5 3 1 0, CloseBatch 1]
        (fst (constructor 1))) = 91195853827"
  by (simp_all add: sample_pending_eval sample_env_fields call_defs eval_defs)

lemma sample_reopened:
  "decryptionContexts (run sample_env [OpenBatch 1] sample_pending) 7 =
     \<lparr> batchId = 1, stateHash = 91195853827, processed = False \<rparr>"
  "computeStateHash sample_env (run sample_env [OpenBatch 1] sample_pending) \<noteq> 91195853827"
  "decryptionContexts
     (run sample_env [OpenBatch 1, SubmitEncryptedData 1 200 5 3 1 0] sample_pending) 7 =
     \<lparr> batchId = 1, stateHash = 91195853827, processed = False \<rparr>"
  "computeStateHash sample_env
     (run sample_env [OpenBatch 1, SubmitEncryptedData 1 200 5 3 1 0] sample_pending) =
     91195853827"
  by (simp_all add: sample_pending_eval sample_env_fields call_defs eval_defs)

theorem tamper_detection_retryable_witness:
  "myCallback sample_env 9 7 (replicate 128 0) [1] sample_tampered = Inl StateMismatch
   \<and> myCallback sample_env 9 7 (replicate 128 0) [1]
        (run sample_env [OpenBatch 1] sample_pending) = Inl StateMismatch
   \<and> (\<exists>s2 evs. myCallback sample_env 9 7 (replicate 128 0) [1]
          (run sample_env [OpenBatch 1, SubmitEncryptedData 1 200 5 3 1 0] sample_pending) =
            Inr (s2, evs)
         \<and> processed (decryptionContexts s2 7))
   \<and> myCallback sample_env 9 7 (replicate 128 0) [] sample_pending = Inl InvalidProof
   \<and> (\<exists>s2 evs. myCallback sample_env 9 7 (replicate 128 0) [1] sample_pending = Inr (s2, evs)
         \<and> processed (decryptionContexts s2 7))"
proof -
  let ?s0 = "run sample_env [OpenBatch 1, SubmitEncryptedData 1 100 5 3 1 0, CloseBatch 1]
      (fst (constructor 1))"
  let ?opened = "run sample_env [OpenBatch 1] sample_pending"
  let ?again = "run sample_env [OpenBatch 1, SubmitEncryptedData 1 200 5 3 1 0] sample_pending"
  have valid: "checkSignatures sample_env 7 (replicate 128 0) [1]"
    by (simp add: sample_env_fields)
  have wellformed: "128 \<le> length (replicate 128 (0 :: 8 word))"
    by simp
  have untouched: "decryptionContexts sample_tampered 7 = decryptionContexts sample_pending 7"
    by (simp add: sample_tampered_facts sample_pending_context)
  have differ: "ctsArray sample_tampered \<noteq> ctsArray ?s0"
    by (simp add: sample_tampered_facts sample_request)
  have distinct: "computeStateHash sample_env sample_tampered \<noteq>
      computeStateHash sample_env ?s0"
    by (simp add: sample_tampered_facts sample_request)
  have tampered: "myCallback sample_env 9 7 (replicate 128 0) [1] sample_tampered =
      Inl StateMismatch"
    using tamper_detection_retryable
      [where env = sample_env and requester = 1 and now = 100 and r = 7 and ?s0.0 = ?s0
         and ?s1.0 = sample_pending and ?evs1.0 = "[DecryptionRequested 7 1]"
         and s = sample_tampered and sender = 9 and cleartexts = "replicate 128 0"
         and pf = "[1]", THEN conjunct1]
      sample_request(1) untouched differ distinct
    by simp
  have reopened: "myCallback sample_env 9 7 (replicate 128 0) [1] ?opened = Inl StateMismatch"
    using tamper_detection_retryable
      [where env = sample_env and r = 7 and s = ?opened and sender = 9
         and cleartexts = "replicate 128 0" and pf = "[1]",
       THEN conjunct2, THEN conjunct2, THEN conjunct1]
      sample_reopened(1,2)
    by simp
  have same: "decryptionContexts ?again 7 = decryptionContexts ?opened 7"
    "computeStateHash sample_env ?again = stateHash (decryptionContexts ?opened 7)"
    by (simp_all add: sample_reopened)
  have retried: "\<exists>s2 evs. myCallback sample_env 9 7 (replicate 128 0) [1] ?again = Inr (s2, evs)
      \<and> processed (decryptionContexts s2 7)"
    using tamper_detection_retryable
      [where env = sample_env and r = 7 and s = ?opened and sender = 9
         and cleartexts = "replicate 128 0" and pf = "[1]" and s' = ?again
         and cleartexts' = "replicate 128 0" and pf' = "[1]" and sender' = 9,
       THEN conjunct2, THEN conjunct2, THEN conjunct2, THEN conjunct2]
      reopened same valid wellformed
    by blast
  have invalid: "myCallback sample_env 9 7 (replicate 128 0) [] sample_pending = Inl InvalidProof"
    by (simp add: myCallback_def sample_pending_context sample_pending_hash sample_env_fields)
  have bound: "computeStateHash sample_env sample_pending =
      stateHash (decryptionContexts sample_pending 7)"
    by (simp add: sample_pending_context sample_pending_hash)
  have retry: "\<exists>s2 evs. myCallback sample_env 9 7 (replicate 128 0) [1] sample_pending =
      Inr (s2, evs) \<and> processed (decryptionContexts s2 7)"
    using tamper_detection_retryable
      [where env = sample_env and r = 7 and s = sample_pending and sender = 9
         and cleartexts = "replicate 128 0" and pf = "[]" and s' = sample_pending
         and cleartexts' = "replicate 128 0" and pf' = "[1]" and sender' = 9,
       THEN conjunct2, THEN conjunct2, THEN conjunct2, THEN conjunct2]
      invalid bound valid wellformed
    by blast
  show ?thesis
    using tampered reopened retried invalid retry by simp
qed

section \<open>Outstanding requests and the active batch\<close>

lemma request_success_state:
  assumes "requestBatchDecryption env sender now r s = Inr (s1, evs)"
  shows "decryptionContexts s1 r =
           \<lparr> batchId = currentBatchId s, stateHash = computeStateHash env s,
             processed = False \<rparr>"
    and "ctsArray s1 = ctsArray s" and "\<not> batchOpen s1" and "sender = owner s1"
    and "\<not> paused s1" and "currentBatchId s1 = currentBatchId s"
  using assms
  by (auto simp: requestBatchDecryption_def onlyOwner_def whenNotPaused_def Let_def
      computeStateHash_def ctsArray_def split: sum.splits if_splits)

lemma openBatch_success_state:
  assumes "openBatch env sender s = Inr (s2, evs)"
  shows "decryptionContexts s2 = decryptionContexts s"
    and "ctsArray s2 = replicate 4 (asEuint32 env 0)"
  using assms
  by (auto simp: openBatch_def onlyOwner_def whenNotPaused_def ctsArray_def
      numeral_eq_Suc split: sum.splits if_splits)

text \<open>
  C2, as stated: once the decryption of the closed batch 1 is requested, a valid delivery
  for that request still succeeds after batch 2 is opened. The contract keeps one set of
  accumulators, and the callback recomputes the digest from it: on the sample history
  the delivery for request 7 succeeds while batch 1 is the current batch, and fails with
  \<open>StateMismatch\<close> as soon as the owner has opened batch 2, and still after batch 2 has
  been submitted to, closed and requested as request 8, although the context of request 7
  is untouched.
\<close>

theorem independent_requests_counterexample:
  "(\<exists>s' evs. myCallback sample_env 9 7 (replicate 128 0) [1] sample_pending = Inr (s', evs))
   \<and> (\<exists>s' evs. openBatch sample_env 1 sample_pending = Inr (s', evs))
   \<and> decryptionContexts (run sample_env [OpenBatch 1] sample_pending) 7 =
       decryptionContexts sample_pending 7
   \<and> myCallback sample_env 9 7 (replicate 128 0) [1] (run sample_env [OpenBatch 1] sample_pending) =
       Inl StateMismatch
   \<and> decryptionContexts (run sample_env sample_next_batch sample_pending) 7 =
       decryptionContexts sample_pending 7
   \<and> myCallback sample_env 9 7 (replicate 128 0) [1]
        (run sample_env sample_next_batch sample_pending) = Inl StateMismatch"
proof -
  have a: "\<exists>s' evs. myCallback sample_env 9 7 (replicate 128 0) [1] sample_pending = Inr (s', evs)"
    by (simp add: myCallback_Inr_iff sample_pending_context sample_pending_hash
        sample_env_fields)
  have b: "\<exists>s' evs. openBatch sample_env 1 sample_pending = Inr (s', evs)"
    by (simp add: sample_pending_eval openBatch_def onlyOwner_def whenNotPaused_def
        checked_add_def)
  have c: "decryptionContexts (run sample_env [OpenBatch 1] sample_pending) 7 =
        decryptionContexts sample_pending 7"
    "myCallback sample_env 9 7 (replicate 128 0) [1] (run sample_env [OpenBatch 1] sample_pending) =
        Inl StateMismatch"
    by (simp_all add: sample_pending_eval sample_env_fields call_defs eval_defs myCallback_def)
  have d: "decryptionContexts (run sample_env sample_next_batch sample_pending) 7 =
        decryptionContexts sample_pending 7"
    "myCallback sample_env 9 7 (replicate 128 0) [1]
        (run sample_env sample_next_batch sample_pending) = Inl StateMismatch"
    by (simp_all add: sample_next_batch_def sample_pending_eval sample_env_fields call_defs
        eval_defs myCallback_def)
  show ?thesis
    using a b c d by blast
qed

text \<open>
  C2, amended: a request stores the digest of the accumulator handles of the moment; the
  callback recomputes the digest from the contract's one set of accumulator handles as it
  is at delivery time, not from handles recorded under the request's batch. While the
  stored context of the request is untouched, a valid delivery (valid proof, cleartexts
  of at least 128 octets) succeeds exactly when the digest of the current handles equals
  the digest taken at the request, and fails with \<open>StateMismatch\<close> otherwise. Opening
  the next batch leaves the context untouched and resets the four handles to the
  encryption of zero, so a delivery for the earlier batch then succeeds only if the
  digest of the reset handles equals the stored one.
\<close>

theorem delivery_bound_to_current_accumulators:
  assumes request: "requestBatchDecryption env sender now r s0 = Inr (s1, evs1)"
    and untouched: "decryptionContexts s2 r = decryptionContexts s1 r"
    and valid: "checkSignatures env r cleartexts prf"
    and wellformed: "128 \<le> length cleartexts"
  shows "((\<exists>s3 evs3. myCallback env caller r cleartexts prf s2 = Inr (s3, evs3))
            \<longleftrightarrow> computeStateHash env s2 = computeStateHash env s0)
       \<and> (computeStateHash env s2 \<noteq> computeStateHash env s0
            \<longrightarrow> myCallback env caller r cleartexts prf s2 = Inl StateMismatch)
       \<and> (\<forall>s' evs. openBatch env sender s1 = Inr (s', evs)
            \<longrightarrow> decryptionContexts s' r = decryptionContexts s1 r
                \<and> computeStateHash env s' =
                    keccak256_abi_encode env
                      (replicate 4 (toBytes32 env (asEuint32 env 0))) (this env))"
proof -
  have ctx: "decryptionContexts s2 r =
      \<lparr> batchId = currentBatchId s0, stateHash = computeStateHash env s0, processed = False \<rparr>"
    using request_success_state(1) [OF request] untouched by simp
  have iff: "(\<exists>s3 evs3. myCallback env caller r cleartexts prf s2 = Inr (s3, evs3))
      \<longleftrightarrow> computeStateHash env s2 = computeStateHash env s0"
    using valid wellformed by (auto simp: myCallback_Inr_iff ctx)
  have mismatch: "myCallback env caller r cleartexts prf s2 = Inl StateMismatch"
    if "computeStateHash env s2 \<noteq> computeStateHash env s0"
    using that by (simp add: myCallback_def ctx)
  have reset: "decryptionContexts s' r = decryptionContexts s1 r
      \<and> computeStateHash env s' =
          keccak256_abi_encode env (replicate 4 (toBytes32 env (asEuint32 env 0))) (this env)"
    if "openBatch env sender s1 = Inr (s', evs)" for s' evs
    using openBatch_success_state [OF that] by (simp add: computeStateHash_def)
  show ?thesis
    using iff mismatch reset by blast
qed

theorem delivery_bound_to_current_accumulators_witness:
  "myCallback sample_env 9 7 (replicate 128 0) [1] (run sample_env [OpenBatch 1] sample_pending) =
     Inl StateMismatch
   \<and> (\<exists>s3 evs3. myCallback sample_env 9 7 (replicate 128 0) [1]
         (run sample_env [CloseBatch 2] sample_pending) = Inr (s3, evs3))"
proof -
  let ?s0 = "run sample_env [OpenBatch 1, SubmitEncryptedData 1 100 5 3 1 0, CloseBatch 1]
      (fst (constructor 1))"
  have request: "requestBatchDecryption sample_env 1 100 7 ?s0 =
      Inr (sample_pending, [DecryptionRequested 7 1])"
    by (simp add: sample_pending_eval sample_env_fields call_defs eval_defs)
  have opened: "decryptionContexts (run sample_env [OpenBatch 1] sample_pending) 7 =
      decryptionContexts sample_pending 7"
    "computeStateHash sample_env (run sample_env [OpenBatch 1] sample_pending) \<noteq>
      computeStateHash sample_env ?s0"
    by (simp_all add: sample_pending_eval sample_env_fields call_defs eval_defs)
  have idle: "decryptionContexts (run sample_env [CloseBatch 2] sample_pending) 7 =
      decryptionContexts sample_pending 7"
    "computeStateHash sample_env (run sample_env [CloseBatch 2] sample_pending) =
      computeStateHash sample_env ?s0"
    by (simp_all add: sample_pending_eval sample_env_fields call_defs eval_defs)
  have valid: "checkSignatures sample_env 7 (replicate 128 0) [1]"
    by (simp add: sample_env_fields)
  have wellformed: "128 \<le> length (replicate 128 (0 :: 8 word))"
    by simp
  show ?thesis
    using delivery_bound_to_current_accumulators [OF request opened(1) valid wellformed, of 9]
      delivery_bound_to_current_accumulators [OF request idle(1) valid wellformed, of 9]
      opened(2) idle(2)
    by blast
qed

end
